theory Spec2Isabelle
  imports Main
begin

section \<open>Python values, exceptions and keyword arguments\<close>

text \<open>
  The tool of \<^verbatim>\<open>langchain_community/tools/sec_api/tool.py\<close> passes strings, integers,
  \<^verbatim>\<open>None\<close> and lists of strings to its client and hands back the client's
  \<^verbatim>\<open>Dict[str, Any]\<close>. Python integers are unbounded, hence \<open>int\<close>.
\<close>

datatype pyval =
    PNone
  | PBool bool
  | PInt int
  | PStr string
  | PList "pyval list"
  | PDict "(string \<times> pyval) list"

text \<open>Keyword arguments of a call, in the order the source writes them.\<close>

type_synonym kwargs = "(string \<times> pyval) list"

text \<open>The result mapping of the client, \<^verbatim>\<open>Dict[str, Any]\<close>.\<close>

type_synonym result = "(string \<times> pyval) list"

text \<open>
  A raised object is its class and the text \<^verbatim>\<open>str(e)\<close> gives for it. The two classes the
  tool raises itself are named; \<open>OtherException\<close> is any other subclass of
  \<^verbatim>\<open>Exception\<close>, \<open>NonException\<close> a class that derives from \<^verbatim>\<open>BaseException\<close> only
  (\<^verbatim>\<open>KeyboardInterrupt\<close>, \<^verbatim>\<open>SystemExit\<close>, \<^verbatim>\<open>GeneratorExit\<close>), which a handler
  \<^verbatim>\<open>except Exception\<close> lets through.
\<close>

datatype exn_class =
    ToolException
  | ValueError
  | OtherException string
  | NonException string

datatype exn = Exn (exn_class: exn_class) (str: string)

fun isinstance_Exception :: "exn \<Rightarrow> bool" where
  "isinstance_Exception (Exn (NonException c) m) = False"
| "isinstance_Exception (Exn c m) = True"

text \<open>A parameter with a default value: the caller gives it or leaves it out.\<close>

datatype 'a arg = Omitted | Given 'a

fun arg_or :: "'a \<Rightarrow> 'a arg \<Rightarrow> 'a" where
  "arg_or d Omitted = d"
| "arg_or d (Given x) = x"

text \<open>\<^verbatim>\<open>Optional[str]\<close> and \<^verbatim>\<open>Optional[List[str]]\<close> as Python values.\<close>

fun opt_str :: "string option \<Rightarrow> pyval" where
  "opt_str None = PNone"
| "opt_str (Some s) = PStr s"

fun opt_str_list :: "string list option \<Rightarrow> pyval" where
  "opt_str_list None = PNone"
| "opt_str_list (Some xs) = PList (map PStr xs)"


section \<open>\<^verbatim>\<open>str.isupper\<close>\<close>

text \<open>
  The characters of \<open>string\<close> are the code points below 256. Their case properties are
  those of the Unicode database, which \<^verbatim>\<open>str.isupper\<close> consults: uppercase are A-Z and
  U+00C0-U+00DE without the multiplication sign U+00D7; lowercase are a-z, U+00DF-U+00FF
  without the division sign U+00F7, the micro sign U+00B5 and the ordinal indicators
  U+00AA and U+00BA; no code point below 256 is titlecase.
\<close>

definition char_isupper :: "char \<Rightarrow> bool" where
  "char_isupper c =
     (let n = (of_char c :: nat)
      in (65 \<le> n \<and> n \<le> 90) \<or> (192 \<le> n \<and> n \<le> 222 \<and> n \<noteq> 215))"

definition char_islower :: "char \<Rightarrow> bool" where
  "char_islower c =
     (let n = (of_char c :: nat)
      in (97 \<le> n \<and> n \<le> 122) \<or> (223 \<le> n \<and> n \<le> 255 \<and> n \<noteq> 247)
         \<or> n = 170 \<or> n = 181 \<or> n = 186)"

definition char_istitle :: "char \<Rightarrow> bool" where
  "char_istitle c = False"

text \<open>
  \<^verbatim>\<open>str.isupper()\<close>: true when all cased characters are uppercase and there is at least
  one cased character. The scan gives up at the first lowercase or titlecase character
  and remembers whether it has met an uppercase one.
\<close>

fun isupper_scan :: "bool \<Rightarrow> string \<Rightarrow> bool" where
  "isupper_scan cased [] = cased"
| "isupper_scan cased (c # cs) =
     (if char_islower c \<or> char_istitle c then False
      else isupper_scan (cased \<or> char_isupper c) cs)"

definition isupper :: "string \<Rightarrow> bool" where
  "isupper s = isupper_scan False s"


section \<open>The client \<^verbatim>\<open>CustomSECAPI\<close>\<close>

text \<open>
  \<^verbatim>\<open>langchain_community.utilities.secapi.CustomSECAPI\<close> is the external collaborator. An
  instance is taken as a parameter: its two operations, each answering a keyword call
  with a result mapping or a raised object. \<open>api_full_text_search\<close> is the client's
  \<^verbatim>\<open>full_text_search\<close>, renamed apart from the tool's method of that name.
\<close>

record CustomSECAPI =
  get_filings :: "kwargs \<Rightarrow> exn + result"
  api_full_text_search :: "kwargs \<Rightarrow> exn + result"

datatype SecretStr = SecretStr string

text \<open>The calls a tool method makes to its client are recorded in the order made.\<close>

datatype client_call = GetFilings kwargs | FullTextSearch kwargs

type_synonym 'a effect = "(exn + 'a) \<times> client_call list"

definition call_get_filings :: "CustomSECAPI \<Rightarrow> kwargs \<Rightarrow> result effect" where
  "call_get_filings w kw = (get_filings w kw, [GetFilings kw])"

definition call_full_text_search :: "CustomSECAPI \<Rightarrow> kwargs \<Rightarrow> result effect" where
  "call_full_text_search w kw = (api_full_text_search w kw, [FullTextSearch kw])"

text \<open>
  \<^verbatim>\<open>try: return <body>  except Exception as e: raise <handler e>\<close>. An object that is not
  an instance of \<^verbatim>\<open>Exception\<close> passes the handler unchanged.
\<close>

fun except_Exception :: "'a effect \<Rightarrow> (exn \<Rightarrow> exn) \<Rightarrow> 'a effect" where
  "except_Exception (Inr r, calls) h = (Inr r, calls)"
| "except_Exception (Inl e, calls) h =
     (if isinstance_Exception e then (Inl (h e), calls) else (Inl e, calls))"


section \<open>\<^verbatim>\<open>SECAPITool\<close>\<close>

text \<open>
  The pydantic fields of the instance, as \<^verbatim>\<open>super().__init__\<close> leaves them, and the
  tool itself, which adds the private \<^verbatim>\<open>_api_wrapper\<close> (read through the property
  \<^verbatim>\<open>api_wrapper\<close>).
\<close>

record tool_fields =
  name :: string
  description :: string
  api_key :: string

record SECAPITool = tool_fields +
  api_wrapper :: CustomSECAPI

text \<open>\<^verbatim>\<open>api_key or self.api_key\<close>: the left operand when it is truthy.\<close>

fun py_or :: "string option \<Rightarrow> string \<Rightarrow> string" where
  "py_or None d = d"
| "py_or (Some s) d = (if s = [] then d else s)"

text \<open>
  \<^verbatim>\<open>SECAPITool.__init__\<close>. The initialiser of the base class and the constructor of the
  client are parameters: \<open>super_init\<close> validates the fields or raises, \<open>new_client\<close> is
  \<^verbatim>\<open>CustomSECAPI(api_key=...)\<close>.
\<close>

definition init ::
  "(string option \<Rightarrow> kwargs \<Rightarrow> exn + tool_fields) \<Rightarrow> (SecretStr \<Rightarrow> exn + CustomSECAPI)
     \<Rightarrow> string option \<Rightarrow> kwargs \<Rightarrow> exn + SECAPITool" where
  "init super_init new_client api_key_arg kwargs =
     (case super_init api_key_arg kwargs of
        Inl e \<Rightarrow> Inl e
      | Inr self \<Rightarrow>
          (let api_key_value = py_or api_key_arg (api_key self)
           in case new_client (SecretStr api_key_value) of
                Inl e \<Rightarrow> Inl e
              | Inr w \<Rightarrow>
                  Inr \<lparr>name = name self, description = description self,
                       api_key = api_key self, api_wrapper = w\<rparr>))"

text \<open>\<^verbatim>\<open>SECAPITool.full_text_search\<close>, defaults \<^verbatim>\<open>None, None, None, 50\<close>.\<close>

definition full_text_search ::
  "SECAPITool \<Rightarrow> string \<Rightarrow> string list option arg \<Rightarrow> string option arg \<Rightarrow> string option arg
     \<Rightarrow> int arg \<Rightarrow> result effect" where
  "full_text_search self query form_types_arg date_from_arg date_to_arg limit_arg =
     (let form_types = arg_or None form_types_arg;
          date_from = arg_or None date_from_arg;
          date_to = arg_or None date_to_arg;
          limit = arg_or 50 limit_arg
      in except_Exception
           (call_full_text_search (api_wrapper self)
              [(''search_query'', PStr query),
               (''form_types'', opt_str_list form_types),
               (''date_from'', opt_str date_from),
               (''date_to'', opt_str date_to),
               (''limit'', PInt limit)])
           (\<lambda>e. Exn ValueError (''Error in full text search: '' @ str e)))"

text \<open>\<^verbatim>\<open>SECAPITool.filing_search\<close>, defaults \<^verbatim>\<open>None, None, None, 50\<close>.\<close>

definition filing_search ::
  "SECAPITool \<Rightarrow> string \<Rightarrow> string option arg \<Rightarrow> string option arg \<Rightarrow> string option arg
     \<Rightarrow> int arg \<Rightarrow> result effect" where
  "filing_search self ticker form_type_arg date_from_arg date_to_arg limit_arg =
     (let form_type = arg_or None form_type_arg;
          date_from = arg_or None date_from_arg;
          date_to = arg_or None date_to_arg;
          limit = arg_or 50 limit_arg
      in except_Exception
           (call_get_filings (api_wrapper self)
              [(''ticker'', PStr ticker),
               (''form_type'', opt_str form_type),
               (''date_from'', opt_str date_from),
               (''date_to'', opt_str date_to),
               (''limit'', PInt limit)])
           (\<lambda>e. Exn ValueError (''Error in filing search: '' @ str e)))"

text \<open>
  \<^verbatim>\<open>SECAPITool._run\<close>. The callback manager and the further keyword arguments are
  accepted and not used.
\<close>

definition run :: "SECAPITool \<Rightarrow> string \<Rightarrow> 'm option \<Rightarrow> kwargs \<Rightarrow> result effect" where
  "run self query run_manager kwargs =
     (if isupper query \<and> length query \<le> 5 then
        except_Exception
          (call_get_filings (api_wrapper self) [(''ticker'', PStr query), (''limit'', PInt 5)])
          (\<lambda>e. Exn ToolException (''Error searching filings: '' @ str e))
      else
        except_Exception
          (call_full_text_search (api_wrapper self)
             [(''search_query'', PStr query), (''limit'', PInt 5)])
          (\<lambda>e. Exn ToolException (''Error searching text: '' @ str e)))"


section \<open>Vocabulary of the properties\<close>

text \<open>An uppercase ASCII letter, A to Z.\<close>

definition ascii_uppercase_letter :: "char \<Rightarrow> bool" where
  "ascii_uppercase_letter c = (65 \<le> (of_char c :: nat) \<and> (of_char c :: nat) \<le> 90)"

text \<open>A cased character: uppercase, lowercase or titlecase.\<close>

definition cased :: "char \<Rightarrow> bool" where
  "cased c = (char_isupper c \<or> char_islower c \<or> char_istitle c)"

text \<open>
  Two clients and the tools built on them, on which the theorems below are exercised: one
  answers every call with a result mapping, the other raises on every call.
\<close>

definition answering_client :: CustomSECAPI where
  "answering_client =
     \<lparr>get_filings = (\<lambda>kw. Inr [(''filings'', PList [PDict kw])]),
      api_full_text_search = (\<lambda>kw. Inr [(''hits'', PList [PDict kw])])\<rparr>"

definition failing_client :: CustomSECAPI where
  "failing_client =
     \<lparr>get_filings = (\<lambda>kw. Inl (Exn (OtherException ''ConnectionError'') ''timed out'')),
      api_full_text_search = (\<lambda>kw. Inl (Exn (OtherException ''HTTPError'') ''429''))\<rparr>"

definition tool_on :: "CustomSECAPI \<Rightarrow> SECAPITool" where
  "tool_on w =
     \<lparr>name = ''sec_api'', description = ''Use this tool to search SEC filings.'',
      api_key = ''KEY'', api_wrapper = w\<rparr>"


text \<open>
  For the constructor: a client that answers with the credential it was built from, the
  constructor that builds it, and a base initialiser that leaves a default credential in
  the field \<^verbatim>\<open>api_key\<close> whatever it is given.
\<close>

definition client_with_key :: "string \<Rightarrow> CustomSECAPI" where
  "client_with_key k =
     \<lparr>get_filings = (\<lambda>kw. Inr [(''authorised_by'', PStr k)]),
      api_full_text_search = (\<lambda>kw. Inr [(''authorised_by'', PStr k)])\<rparr>"

fun client_bound_to :: "SecretStr \<Rightarrow> exn + CustomSECAPI" where
  "client_bound_to (SecretStr k) = Inr (client_with_key k)"

definition default_keeping_init :: "string option \<Rightarrow> kwargs \<Rightarrow> exn + tool_fields" where
  "default_keeping_init api_key_arg kwargs =
     Inr \<lparr>name = ''sec_api'', description = ''Use this tool to search SEC filings.'',
          api_key = ''DEFAULT''\<rparr>"


section \<open>Facts about the helpers\<close>

lemma except_Exception_calls: "snd (except_Exception x h) = snd x"
  by (cases "(x, h)" rule: except_Exception.cases) simp_all

lemma except_Exception_returns:
  "fst x = Inr r \<Longrightarrow> fst (except_Exception x h) = Inr r"
  by (cases "(x, h)" rule: except_Exception.cases) simp_all

lemma except_Exception_caught:
  "fst x = Inl e \<Longrightarrow> isinstance_Exception e \<Longrightarrow> fst (except_Exception x h) = Inl (h e)"
  by (cases "(x, h)" rule: except_Exception.cases) simp_all

lemma except_Exception_passed:
  "fst x = Inl e \<Longrightarrow> \<not> isinstance_Exception e \<Longrightarrow> fst (except_Exception x h) = Inl e"
  by (cases "(x, h)" rule: except_Exception.cases) simp_all

lemma isupper_scan_True:
  "isupper_scan True s \<longleftrightarrow> (\<forall>c \<in> set s. \<not> char_islower c \<and> \<not> char_istitle c)"
  by (induction s) auto

lemma isupper_scan_False:
  "isupper_scan False s \<longleftrightarrow>
     (\<forall>c \<in> set s. \<not> char_islower c \<and> \<not> char_istitle c) \<and> (\<exists>c \<in> set s. char_isupper c)"
proof (induction s)
  case Nil
  show ?case by simp
next
  case (Cons a s)
  show ?case
  proof (cases "char_isupper a")
    case True
    then show ?thesis by (simp add: isupper_scan_True)
  next
    case False
    then show ?thesis using Cons.IH by auto
  qed
qed

lemma isupper_iff:
  "isupper s \<longleftrightarrow>
     (\<forall>c \<in> set s. \<not> char_islower c \<and> \<not> char_istitle c) \<and> (\<exists>c \<in> set s. char_isupper c)"
  by (simp add: isupper_def isupper_scan_False)

lemma isupper_empty: "\<not> isupper []"
  by (simp add: isupper_def)


lemma char_isupper_not_islower: "char_isupper c \<Longrightarrow> \<not> char_islower c"
  by (auto simp: char_isupper_def char_islower_def Let_def)

lemma ascii_uppercase_letter_isupper: "ascii_uppercase_letter c \<Longrightarrow> char_isupper c"
  by (simp add: ascii_uppercase_letter_def char_isupper_def Let_def)

lemma isupper_ascii_uppercase:
  assumes "q \<noteq> []" and "list_all ascii_uppercase_letter q"
  shows "isupper q"
proof -
  from assms(2) have up: "\<forall>c \<in> set q. char_isupper c"
    by (simp add: list_all_iff ascii_uppercase_letter_isupper)
  from assms(1) obtain c where "c \<in> set q" by (cases q) auto
  with up show ?thesis
    by (auto simp: isupper_iff char_istitle_def dest: char_isupper_not_islower)
qed

lemma run_ticker_branch:
  "isupper q \<Longrightarrow> length q \<le> 5 \<Longrightarrow>
   run self q run_manager kwargs =
     except_Exception
       (call_get_filings (api_wrapper self) [(''ticker'', PStr q), (''limit'', PInt 5)])
       (\<lambda>e. Exn ToolException (''Error searching filings: '' @ str e))"
  by (simp add: run_def)

lemma run_text_branch:
  "\<not> (isupper q \<and> length q \<le> 5) \<Longrightarrow>
   run self q run_manager kwargs =
     except_Exception
       (call_full_text_search (api_wrapper self)
          [(''search_query'', PStr q), (''limit'', PInt 5)])
       (\<lambda>e. Exn ToolException (''Error searching text: '' @ str e))"
  unfolding run_def by (rule if_not_P)


lemma run_non_Exception_passes:
  "isupper q \<and> length q \<le> 5 \<Longrightarrow>
   get_filings (api_wrapper self) [(''ticker'', PStr q), (''limit'', PInt 5)] = Inl e \<Longrightarrow>
   \<not> isinstance_Exception e \<Longrightarrow>
   fst (run self q run_manager kwargs) = Inl e"
  by (simp add: run_ticker_branch except_Exception_passed call_get_filings_def)


lemma init_without_credential:
  "super_init None kwargs = Inr self \<Longrightarrow>
   init super_init new_client None kwargs =
     (case new_client (SecretStr (api_key self)) of
        Inl e \<Rightarrow> Inl e
      | Inr w \<Rightarrow>
          Inr \<lparr>name = name self, description = description self,
               api_key = api_key self, api_wrapper = w\<rparr>)"
  by (simp add: init_def)


section \<open>The routed entry point\<close>

text \<open>
  C1. A query of one to five uppercase ASCII letters takes the filing branch: the only
  client call of \<^verbatim>\<open>_run\<close> is \<^verbatim>\<open>get_filings(ticker=q, limit=5)\<close>, no full-text search
  is made, and when that call returns a result mapping \<^verbatim>\<open>_run\<close> returns it unchanged.
\<close>

theorem run_ticker_query:
  assumes "q \<noteq> []" and "length q \<le> 5" and "list_all ascii_uppercase_letter q"
  shows "snd (run self q run_manager kwargs)
           = [GetFilings [(''ticker'', PStr q), (''limit'', PInt 5)]]
         \<and> (\<forall>r. get_filings (api_wrapper self) [(''ticker'', PStr q), (''limit'', PInt 5)] = Inr r
               \<longrightarrow> fst (run self q run_manager kwargs) = Inr r)"
proof -
  have up: "isupper q" using assms(1,3) by (rule isupper_ascii_uppercase)
  note br = run_ticker_branch [OF up assms(2), of self run_manager kwargs]
  have "snd (run self q run_manager kwargs)
          = [GetFilings [(''ticker'', PStr q), (''limit'', PInt 5)]]"
    by (simp add: br except_Exception_calls call_get_filings_def)
  moreover have "fst (run self q run_manager kwargs) = Inr r"
    if "get_filings (api_wrapper self) [(''ticker'', PStr q), (''limit'', PInt 5)] = Inr r" for r
    using that by (simp add: br except_Exception_returns call_get_filings_def)
  ultimately show ?thesis by blast
qed

theorem run_ticker_query_witness:
  "''TSLA'' \<noteq> [] \<and> length ''TSLA'' \<le> 5 \<and> list_all ascii_uppercase_letter ''TSLA''
   \<and> run (tool_on answering_client) ''TSLA'' (None :: unit option) []
       = (Inr [(''filings'', PList [PDict [(''ticker'', PStr ''TSLA''), (''limit'', PInt 5)]])],
          [GetFilings [(''ticker'', PStr ''TSLA''), (''limit'', PInt 5)]])"
proof -
  have h1: "''TSLA'' \<noteq> []" by simp
  have h2: "length ''TSLA'' \<le> 5" by simp
  have h3: "list_all ascii_uppercase_letter ''TSLA''"
    by (simp add: ascii_uppercase_letter_def)
  have g: "get_filings (api_wrapper (tool_on answering_client))
             [(''ticker'', PStr ''TSLA''), (''limit'', PInt 5)]
           = Inr [(''filings'', PList [PDict [(''ticker'', PStr ''TSLA''), (''limit'', PInt 5)]])]"
    by (simp add: tool_on_def answering_client_def)
  from run_ticker_query [OF h1 h2 h3, of "tool_on answering_client" "None :: unit option" "[]"] g
  have "run (tool_on answering_client) ''TSLA'' (None :: unit option) []
       = (Inr [(''filings'', PList [PDict [(''ticker'', PStr ''TSLA''), (''limit'', PInt 5)]])],
          [GetFilings [(''ticker'', PStr ''TSLA''), (''limit'', PInt 5)]])"
    by (simp add: prod_eq_iff)
  with h1 h2 h3 show ?thesis by blast
qed

text \<open>
  C2, as stated, fails. The query \<^verbatim>\<open>"10-K"\<close> is non-empty and is not made of uppercase
  letters only, yet \<^verbatim>\<open>"10-K".isupper()\<close> is true (its one cased character is uppercase)
  and its length is 4, so \<^verbatim>\<open>_run\<close> calls \<^verbatim>\<open>get_filings(ticker="10-K", limit=5)\<close> and makes
  no full-text search.
\<close>

theorem run_non_letter_query_counterexample:
  "''10-K'' \<noteq> []
   \<and> \<not> (list_all ascii_uppercase_letter ''10-K'' \<and> length ''10-K'' \<le> 5)
   \<and> snd (run (tool_on answering_client) ''10-K'' (None :: unit option) [])
       = [GetFilings [(''ticker'', PStr ''10-K''), (''limit'', PInt 5)]]
   \<and> snd (run (tool_on answering_client) ''10-K'' (None :: unit option) [])
       \<noteq> [FullTextSearch [(''search_query'', PStr ''10-K''), (''limit'', PInt 5)]]"
  by (simp add: run_def isupper_def char_isupper_def char_islower_def char_istitle_def
      ascii_uppercase_letter_def except_Exception_calls call_get_filings_def)

text \<open>
  C2, amended. A non-empty query that is longer than five characters, or contains a
  lowercase character, or contains no uppercase character takes the full-text branch: the
  only client call of \<^verbatim>\<open>_run\<close> is \<^verbatim>\<open>full_text_search(search_query=q, limit=5)\<close> and no
  filing lookup is made.
\<close>

theorem run_free_text_query:
  assumes "q \<noteq> []"
    and "5 < length q \<or> (\<exists>c \<in> set q. char_islower c) \<or> \<not> (\<exists>c \<in> set q. char_isupper c)"
  shows "snd (run self q run_manager kwargs)
           = [FullTextSearch [(''search_query'', PStr q), (''limit'', PInt 5)]]"
proof -
  from assms(2) have "\<not> (isupper q \<and> length q \<le> 5)"
    by (auto simp: isupper_iff)
  then show ?thesis
    by (simp add: run_text_branch except_Exception_calls call_full_text_search_def)
qed

theorem run_free_text_query_witness:
  "''artificial intelligence'' \<noteq> []
   \<and> 5 < length ''artificial intelligence''
   \<and> snd (run (tool_on answering_client) ''artificial intelligence'' (None :: unit option) [])
       = [FullTextSearch [(''search_query'', PStr ''artificial intelligence''), (''limit'', PInt 5)]]"
proof -
  have h1: "''artificial intelligence'' \<noteq> []" by simp
  have h2: "5 < length ''artificial intelligence''" by simp
  from h2 have h3: "5 < length ''artificial intelligence''
      \<or> (\<exists>c \<in> set ''artificial intelligence''. char_islower c)
      \<or> \<not> (\<exists>c \<in> set ''artificial intelligence''. char_isupper c)" by (rule disjI1)
  from run_free_text_query [OF h1 h3, of "tool_on answering_client" "None :: unit option" "[]"] h1 h2
  show ?thesis by blast
qed

text \<open>
  C7. For the empty query the test \<^verbatim>\<open>query.isupper() and len(query) <= 5\<close> is false, so
  \<^verbatim>\<open>_run\<close> makes exactly one client call, \<^verbatim>\<open>full_text_search(search_query="", limit=5)\<close>,
  and no filing lookup.
\<close>

theorem run_empty_query:
  "\<not> (isupper [] \<and> length ([] :: string) \<le> 5)
   \<and> snd (run self [] run_manager kwargs)
       = [FullTextSearch [(''search_query'', PStr []), (''limit'', PInt 5)]]"
  by (simp add: run_def isupper_empty except_Exception_calls call_full_text_search_def)

text \<open>
  C9. The test \<^verbatim>\<open>_run\<close> applies is \<^verbatim>\<open>query.isupper() and len(query) <= 5\<close>: a query of at
  most five characters with at least one cased character, all of whose cased characters
  are uppercase, passes it and is routed to \<^verbatim>\<open>get_filings(ticker=q, limit=5)\<close>, digits and
  punctuation notwithstanding (\<^verbatim>\<open>"A1"\<close>, \<^verbatim>\<open>"10-K"\<close>); no full-text search is made.
\<close>

theorem run_routes_by_isupper:
  assumes "length q \<le> 5" and "\<exists>c \<in> set q. cased c" and "\<forall>c \<in> set q. cased c \<longrightarrow> char_isupper c"
  shows "(isupper q \<and> length q \<le> 5)
         \<and> snd (run self q run_manager kwargs)
             = [GetFilings [(''ticker'', PStr q), (''limit'', PInt 5)]]"
proof -
  from assms(3) have low: "\<forall>c \<in> set q. \<not> char_islower c \<and> \<not> char_istitle c"
    by (auto simp: cased_def char_istitle_def dest: char_isupper_not_islower)
  from assms(2,3) have "\<exists>c \<in> set q. char_isupper c" by blast
  with low have up: "isupper q" by (simp add: isupper_iff)
  with assms(1) show ?thesis
    by (simp add: run_ticker_branch except_Exception_calls call_get_filings_def)
qed

theorem run_routes_by_isupper_witness:
  "length ''A1'' \<le> 5 \<and> list_ex cased ''A1'' \<and> list_all (\<lambda>c. \<not> cased c \<or> char_isupper c) ''A1''
   \<and> \<not> list_all ascii_uppercase_letter ''A1''
   \<and> snd (run (tool_on answering_client) ''A1'' (None :: unit option) [])
       = [GetFilings [(''ticker'', PStr ''A1''), (''limit'', PInt 5)]]"
proof -
  have h1: "length ''A1'' \<le> 5" by simp
  have h2: "\<exists>c \<in> set ''A1''. cased c"
    by (simp add: cased_def char_isupper_def char_islower_def char_istitle_def)
  have h3: "\<forall>c \<in> set ''A1''. cased c \<longrightarrow> char_isupper c"
    by (simp add: cased_def char_isupper_def char_islower_def char_istitle_def)
  have h4: "\<not> list_all ascii_uppercase_letter ''A1''"
    by (simp add: ascii_uppercase_letter_def)
  from run_routes_by_isupper [OF h1 h2 h3, of "tool_on answering_client" "None :: unit option" "[]"]
  have "snd (run (tool_on answering_client) ''A1'' (None :: unit option) [])
       = [GetFilings [(''ticker'', PStr ''A1''), (''limit'', PInt 5)]]" by simp
  with h1 h2 h3 h4 show ?thesis by (simp add: list_ex_iff list_all_iff)
qed

text \<open>
  C3. When the client call of \<^verbatim>\<open>_run\<close> raises an exception \<open>e\<close> (an instance of
  \<^verbatim>\<open>Exception\<close>, which is what the handlers catch), \<^verbatim>\<open>_run\<close> raises a
  \<^verbatim>\<open>ToolException\<close> whose message is \<^verbatim>\<open>"Error searching filings: "\<close> on the filing
  branch and \<^verbatim>\<open>"Error searching text: "\<close> on the full-text branch, followed by
  \<^verbatim>\<open>str(e)\<close>.
\<close>

theorem run_client_error:
  "(isupper q \<and> length q \<le> 5
      \<and> get_filings (api_wrapper self) [(''ticker'', PStr q), (''limit'', PInt 5)] = Inl e
      \<and> isinstance_Exception e
    \<longrightarrow> fst (run self q run_manager kwargs)
          = Inl (Exn ToolException (''Error searching filings: '' @ str e)))
   \<and> (\<not> (isupper q \<and> length q \<le> 5)
      \<and> api_full_text_search (api_wrapper self) [(''search_query'', PStr q), (''limit'', PInt 5)]
          = Inl e
      \<and> isinstance_Exception e
    \<longrightarrow> fst (run self q run_manager kwargs)
          = Inl (Exn ToolException (''Error searching text: '' @ str e)))"
proof (intro conjI impI)
  assume a: "isupper q \<and> length q \<le> 5
      \<and> get_filings (api_wrapper self) [(''ticker'', PStr q), (''limit'', PInt 5)] = Inl e
      \<and> isinstance_Exception e"
  then have "run self q run_manager kwargs =
     except_Exception
       (call_get_filings (api_wrapper self) [(''ticker'', PStr q), (''limit'', PInt 5)])
       (\<lambda>e. Exn ToolException (''Error searching filings: '' @ str e))"
    by (simp add: run_ticker_branch)
  with a show "fst (run self q run_manager kwargs)
          = Inl (Exn ToolException (''Error searching filings: '' @ str e))"
    by (simp add: except_Exception_caught call_get_filings_def)
next
  assume a: "\<not> (isupper q \<and> length q \<le> 5)
      \<and> api_full_text_search (api_wrapper self) [(''search_query'', PStr q), (''limit'', PInt 5)]
          = Inl e
      \<and> isinstance_Exception e"
  then have "\<not> (isupper q \<and> length q \<le> 5)" by blast
  then have "run self q run_manager kwargs =
     except_Exception
       (call_full_text_search (api_wrapper self)
          [(''search_query'', PStr q), (''limit'', PInt 5)])
       (\<lambda>e. Exn ToolException (''Error searching text: '' @ str e))"
    by (rule run_text_branch)
  with a show "fst (run self q run_manager kwargs)
          = Inl (Exn ToolException (''Error searching text: '' @ str e))"
    by (simp add: except_Exception_caught call_full_text_search_def)
qed

theorem run_client_error_witness:
  "fst (run (tool_on failing_client) ''TSLA'' (None :: unit option) [])
     = Inl (Exn ToolException ''Error searching filings: timed out'')
   \<and> fst (run (tool_on failing_client) ''tesla earnings'' (None :: unit option) [])
     = Inl (Exn ToolException ''Error searching text: 429'')"
proof -
  have up: "isupper ''TSLA'' \<and> length ''TSLA'' \<le> 5"
    by (simp add: isupper_def char_isupper_def char_islower_def char_istitle_def)
  have g: "get_filings (api_wrapper (tool_on failing_client))
             [(''ticker'', PStr ''TSLA''), (''limit'', PInt 5)]
           = Inl (Exn (OtherException ''ConnectionError'') ''timed out'')"
    by (simp add: tool_on_def failing_client_def)
  have i1: "isinstance_Exception (Exn (OtherException ''ConnectionError'') ''timed out'')"
    by simp
  have nup: "\<not> (isupper ''tesla earnings'' \<and> length ''tesla earnings'' \<le> 5)"
    by simp
  have f: "api_full_text_search (api_wrapper (tool_on failing_client))
             [(''search_query'', PStr ''tesla earnings''), (''limit'', PInt 5)]
           = Inl (Exn (OtherException ''HTTPError'') ''429'')"
    by (simp add: tool_on_def failing_client_def)
  have i2: "isinstance_Exception (Exn (OtherException ''HTTPError'') ''429'')"
    by simp
  from run_client_error [of "''TSLA''" "tool_on failing_client"
      "Exn (OtherException ''ConnectionError'') ''timed out''" "None :: unit option" "[]"]
    up g i1
  have r1: "fst (run (tool_on failing_client) ''TSLA'' (None :: unit option) [])
     = Inl (Exn ToolException ''Error searching filings: timed out'')" by simp
  from run_client_error [of "''tesla earnings''" "tool_on failing_client"
      "Exn (OtherException ''HTTPError'') ''429''" "None :: unit option" "[]"]
    nup f i2
  have r2: "fst (run (tool_on failing_client) ''tesla earnings'' (None :: unit option) [])
     = Inl (Exn ToolException ''Error searching text: 429'')" by simp
  from r1 r2 show ?thesis by (rule conjI)
qed

text \<open>
  C10. A run of \<^verbatim>\<open>_run\<close> makes at most one client call. When the query passes the ticker
  test and \<^verbatim>\<open>get_filings\<close> raises, that call is the only one: no full-text search
  is attempted, and the raised object leaves \<^verbatim>\<open>_run\<close> (as a \<^verbatim>\<open>ToolException\<close> when it
  is an instance of \<^verbatim>\<open>Exception\<close>).
\<close>

theorem run_single_call:
  "length (snd (run self q run_manager kwargs)) \<le> 1
   \<and> (isupper q \<and> length q \<le> 5
        \<and> get_filings (api_wrapper self) [(''ticker'', PStr q), (''limit'', PInt 5)] = Inl e
      \<longrightarrow> snd (run self q run_manager kwargs)
            = [GetFilings [(''ticker'', PStr q), (''limit'', PInt 5)]]
          \<and> (\<forall>kw. FullTextSearch kw \<notin> set (snd (run self q run_manager kwargs)))
          \<and> fst (run self q run_manager kwargs)
              = Inl (if isinstance_Exception e
                     then Exn ToolException (''Error searching filings: '' @ str e) else e))"
proof (intro conjI impI)
  show "length (snd (run self q run_manager kwargs)) \<le> 1"
    by (simp add: run_def except_Exception_calls call_get_filings_def call_full_text_search_def)
next
  assume a: "isupper q \<and> length q \<le> 5
        \<and> get_filings (api_wrapper self) [(''ticker'', PStr q), (''limit'', PInt 5)] = Inl e"
  then have br: "run self q run_manager kwargs =
     except_Exception
       (call_get_filings (api_wrapper self) [(''ticker'', PStr q), (''limit'', PInt 5)])
       (\<lambda>e. Exn ToolException (''Error searching filings: '' @ str e))"
    by (simp add: run_ticker_branch)
  show c: "snd (run self q run_manager kwargs)
            = [GetFilings [(''ticker'', PStr q), (''limit'', PInt 5)]]"
    by (simp add: br except_Exception_calls call_get_filings_def)
  show "\<forall>kw. FullTextSearch kw \<notin> set (snd (run self q run_manager kwargs))"
    by (simp add: c)
  show "fst (run self q run_manager kwargs)
              = Inl (if isinstance_Exception e
                     then Exn ToolException (''Error searching filings: '' @ str e) else e)"
    using a by (simp add: br call_get_filings_def)
qed

theorem run_single_call_witness:
  "length (snd (run (tool_on failing_client) ''TSLA'' (None :: unit option) [])) \<le> 1
   \<and> run (tool_on failing_client) ''TSLA'' (None :: unit option) []
       = (Inl (Exn ToolException ''Error searching filings: timed out''),
          [GetFilings [(''ticker'', PStr ''TSLA''), (''limit'', PInt 5)]])"
proof -
  have up: "isupper ''TSLA'' \<and> length ''TSLA'' \<le> 5"
    by (simp add: isupper_def char_isupper_def char_islower_def char_istitle_def)
  have g: "get_filings (api_wrapper (tool_on failing_client))
             [(''ticker'', PStr ''TSLA''), (''limit'', PInt 5)]
           = Inl (Exn (OtherException ''ConnectionError'') ''timed out'')"
    by (simp add: tool_on_def failing_client_def)
  from run_single_call [of "tool_on failing_client" "''TSLA''" "None :: unit option" "[]"
      "Exn (OtherException ''ConnectionError'') ''timed out''"] up g
  show ?thesis by (simp add: prod_eq_iff)
qed


section \<open>The explicit operations\<close>

text \<open>
  C4. \<^verbatim>\<open>filing_search\<close> called with a ticker alone makes the one client call
  \<^verbatim>\<open>get_filings(ticker=ticker, form_type=None, date_from=None, date_to=None, limit=50)\<close>;
  called with all five arguments it passes each of them on as given; in general every
  parameter reaches the client with the value given or else its default.
\<close>

theorem filing_search_forwards:
  "snd (filing_search self ticker Omitted Omitted Omitted Omitted)
     = [GetFilings [(''ticker'', PStr ticker), (''form_type'', PNone), (''date_from'', PNone),
                    (''date_to'', PNone), (''limit'', PInt 50)]]
   \<and> snd (filing_search self ticker (Given form_type) (Given date_from) (Given date_to)
            (Given limit))
     = [GetFilings [(''ticker'', PStr ticker), (''form_type'', opt_str form_type),
                    (''date_from'', opt_str date_from), (''date_to'', opt_str date_to),
                    (''limit'', PInt limit)]]
   \<and> snd (filing_search self ticker form_type_arg date_from_arg date_to_arg limit_arg)
     = [GetFilings [(''ticker'', PStr ticker), (''form_type'', opt_str (arg_or None form_type_arg)),
                    (''date_from'', opt_str (arg_or None date_from_arg)),
                    (''date_to'', opt_str (arg_or None date_to_arg)),
                    (''limit'', PInt (arg_or 50 limit_arg))]]"
  by (simp add: filing_search_def Let_def except_Exception_calls call_get_filings_def)

theorem filing_search_forwards_witness:
  "snd (filing_search (tool_on answering_client) ''AAPL'' Omitted Omitted Omitted Omitted)
     = [GetFilings [(''ticker'', PStr ''AAPL''), (''form_type'', PNone), (''date_from'', PNone),
                    (''date_to'', PNone), (''limit'', PInt 50)]]
   \<and> snd (filing_search (tool_on answering_client) ''AAPL'' (Given (Some ''10-K''))
            (Given (Some ''2023-01-01'')) (Given None) (Given 7))
     = [GetFilings [(''ticker'', PStr ''AAPL''), (''form_type'', PStr ''10-K''),
                    (''date_from'', PStr ''2023-01-01''), (''date_to'', PNone),
                    (''limit'', PInt 7)]]"
  using filing_search_forwards [of "tool_on answering_client" "''AAPL''" "Some ''10-K''"
      "Some ''2023-01-01''" None 7 Omitted Omitted Omitted Omitted]
  by simp

text \<open>
  C5. \<^verbatim>\<open>full_text_search\<close> called with a query alone makes the one client call
  \<^verbatim>\<open>full_text_search(search_query=query, form_types=None, date_from=None, date_to=None,
  limit=50)\<close>; called with all five arguments it passes each of them on as given; in general
  every parameter reaches the client with the value given or else its default.
\<close>

theorem full_text_search_forwards:
  "snd (full_text_search self query Omitted Omitted Omitted Omitted)
     = [FullTextSearch [(''search_query'', PStr query), (''form_types'', PNone),
                        (''date_from'', PNone), (''date_to'', PNone), (''limit'', PInt 50)]]
   \<and> snd (full_text_search self query (Given form_types) (Given date_from) (Given date_to)
            (Given limit))
     = [FullTextSearch [(''search_query'', PStr query), (''form_types'', opt_str_list form_types),
                        (''date_from'', opt_str date_from), (''date_to'', opt_str date_to),
                        (''limit'', PInt limit)]]
   \<and> snd (full_text_search self query form_types_arg date_from_arg date_to_arg limit_arg)
     = [FullTextSearch [(''search_query'', PStr query),
                        (''form_types'', opt_str_list (arg_or None form_types_arg)),
                        (''date_from'', opt_str (arg_or None date_from_arg)),
                        (''date_to'', opt_str (arg_or None date_to_arg)),
                        (''limit'', PInt (arg_or 50 limit_arg))]]"
  by (simp add: full_text_search_def Let_def except_Exception_calls call_full_text_search_def)

theorem full_text_search_forwards_witness:
  "snd (full_text_search (tool_on answering_client) ''artificial intelligence''
          Omitted Omitted Omitted Omitted)
     = [FullTextSearch [(''search_query'', PStr ''artificial intelligence''),
                        (''form_types'', PNone), (''date_from'', PNone), (''date_to'', PNone),
                        (''limit'', PInt 50)]]
   \<and> snd (full_text_search (tool_on answering_client) ''artificial intelligence''
            (Given (Some [''10-K'', ''8-K''])) (Given None) (Given (Some ''2024-06-30''))
            (Given 3))
     = [FullTextSearch [(''search_query'', PStr ''artificial intelligence''),
                        (''form_types'', PList [PStr ''10-K'', PStr ''8-K'']),
                        (''date_from'', PNone), (''date_to'', PStr ''2024-06-30''),
                        (''limit'', PInt 3)]]"
  using full_text_search_forwards [of "tool_on answering_client" "''artificial intelligence''"
      "Some [''10-K'', ''8-K'']" None "Some ''2024-06-30''" 3 Omitted Omitted Omitted Omitted]
  by simp

text \<open>
  C6. When the client raises an exception \<open>e\<close> (an instance of \<^verbatim>\<open>Exception\<close>, which is
  what the handlers catch) inside an explicit operation, the operation raises a
  \<^verbatim>\<open>ValueError\<close> with the message \<^verbatim>\<open>"Error in filing search: "\<close> followed by
  \<^verbatim>\<open>str(e)\<close> for \<^verbatim>\<open>filing_search\<close>, and \<^verbatim>\<open>"Error in full text search: "\<close> followed by
  \<^verbatim>\<open>str(e)\<close> for \<^verbatim>\<open>full_text_search\<close>.
\<close>

theorem explicit_operation_error:
  "(get_filings (api_wrapper self)
       [(''ticker'', PStr ticker), (''form_type'', opt_str (arg_or None form_type_arg)),
        (''date_from'', opt_str (arg_or None date_from_arg)),
        (''date_to'', opt_str (arg_or None date_to_arg)),
        (''limit'', PInt (arg_or 50 limit_arg))] = Inl e
      \<and> isinstance_Exception e
    \<longrightarrow> fst (filing_search self ticker form_type_arg date_from_arg date_to_arg limit_arg)
          = Inl (Exn ValueError (''Error in filing search: '' @ str e)))
   \<and> (api_full_text_search (api_wrapper self)
       [(''search_query'', PStr query), (''form_types'', opt_str_list (arg_or None form_types_arg)),
        (''date_from'', opt_str (arg_or None date_from_arg)),
        (''date_to'', opt_str (arg_or None date_to_arg)),
        (''limit'', PInt (arg_or 50 limit_arg))] = Inl e
      \<and> isinstance_Exception e
    \<longrightarrow> fst (full_text_search self query form_types_arg date_from_arg date_to_arg limit_arg)
          = Inl (Exn ValueError (''Error in full text search: '' @ str e)))"
  by (simp add: filing_search_def full_text_search_def Let_def except_Exception_caught
      call_get_filings_def call_full_text_search_def)

theorem explicit_operation_error_witness:
  "fst (filing_search (tool_on failing_client) ''AAPL'' Omitted Omitted Omitted Omitted)
     = Inl (Exn ValueError ''Error in filing search: timed out'')
   \<and> fst (full_text_search (tool_on failing_client) ''artificial intelligence''
            Omitted Omitted Omitted Omitted)
     = Inl (Exn ValueError ''Error in full text search: 429'')"
proof -
  have g: "get_filings (api_wrapper (tool_on failing_client)) kw
           = Inl (Exn (OtherException ''ConnectionError'') ''timed out'')" for kw
    by (simp add: tool_on_def failing_client_def)
  have f: "api_full_text_search (api_wrapper (tool_on failing_client)) kw
           = Inl (Exn (OtherException ''HTTPError'') ''429'')" for kw
    by (simp add: tool_on_def failing_client_def)
  from explicit_operation_error [of "tool_on failing_client" "''AAPL''" Omitted Omitted Omitted
      Omitted "Exn (OtherException ''ConnectionError'') ''timed out''"]
  have r1: "fst (filing_search (tool_on failing_client) ''AAPL'' Omitted Omitted Omitted Omitted)
     = Inl (Exn ValueError ''Error in filing search: timed out'')"
    by (simp add: g)
  from explicit_operation_error [of "tool_on failing_client" _ Omitted Omitted Omitted
      Omitted "Exn (OtherException ''HTTPError'') ''429''" "''artificial intelligence''" Omitted]
  have r2: "fst (full_text_search (tool_on failing_client) ''artificial intelligence''
            Omitted Omitted Omitted Omitted)
     = Inl (Exn ValueError ''Error in full text search: 429'')"
    by (simp add: f)
  from r1 r2 show ?thesis by (rule conjI)
qed


section \<open>Construction\<close>

text \<open>
  C8. Constructed with an explicit non-empty credential \<open>k\<close>, the tool builds its client
  as \<^verbatim>\<open>CustomSECAPI(api_key=SecretStr(k))\<close>, whatever credential the base initialiser has
  left in the field \<^verbatim>\<open>api_key\<close> (a default configured on the class included).
\<close>

theorem init_explicit_credential:
  assumes "k \<noteq> []" and "super_init (Some k) kwargs = Inr self"
  shows "init super_init new_client (Some k) kwargs =
           (case new_client (SecretStr k) of
              Inl e \<Rightarrow> Inl e
            | Inr w \<Rightarrow>
                Inr \<lparr>name = name self, description = description self,
                     api_key = api_key self, api_wrapper = w\<rparr>)"
  using assms by (simp add: init_def)

theorem init_explicit_credential_witness:
  "''EXPLICIT'' \<noteq> []
   \<and> init default_keeping_init client_bound_to (Some ''EXPLICIT'') []
       = Inr \<lparr>name = ''sec_api'', description = ''Use this tool to search SEC filings.'',
              api_key = ''DEFAULT'', api_wrapper = client_with_key ''EXPLICIT''\<rparr>
   \<and> client_with_key ''EXPLICIT'' \<noteq> client_with_key ''DEFAULT''"
proof -
  have h1: "''EXPLICIT'' \<noteq> []" by simp
  have h2: "default_keeping_init (Some ''EXPLICIT'') []
            = Inr \<lparr>name = ''sec_api'', description = ''Use this tool to search SEC filings.'',
                   api_key = ''DEFAULT''\<rparr>"
    by (simp add: default_keeping_init_def)
  have "get_filings (client_with_key ''EXPLICIT'') [] \<noteq> get_filings (client_with_key ''DEFAULT'') []"
    by (simp add: client_with_key_def)
  then have h3: "client_with_key ''EXPLICIT'' \<noteq> client_with_key ''DEFAULT''" by metis
  from init_explicit_credential
    [where super_init = default_keeping_init and new_client = client_bound_to
       and kwargs = "[]", OF h1 h2]
  have "init default_keeping_init client_bound_to (Some ''EXPLICIT'') []
       = Inr \<lparr>name = ''sec_api'', description = ''Use this tool to search SEC filings.'',
              api_key = ''DEFAULT'', api_wrapper = client_with_key ''EXPLICIT''\<rparr>"
    by simp
  with h1 h3 show ?thesis by blast
qed

end
